theory Spec2Isabelle
  imports Complex_Main "HOL-Library.Word"
begin

section \<open>TechDraw::DrawPage (DrawPage.cpp)\<close>

text \<open>
  The C++ type \<open>int\<close> is a 32-bit two's-complement integer: \<open>+\<close> on \<open>32 word\<close> wraps
  around and \<open>sint\<close> reads the signed value. (C++ leaves signed overflow undefined; the
  wrap-around is what the usual targets compute.)
\<close>

type_synonym cpp_int = "32 word"

text \<open>
  The C++ type \<open>long\<close>, the type in which an \<open>App::PropertyInteger\<close> such as
  \<open>NextBalloonIndex\<close> holds its value (\<open>getValue\<close> returns it, \<open>setValue\<close> takes it): 64 bits
  on the LP64 targets (Linux, macOS). Converting a \<open>long\<close> to an \<open>int\<close> keeps the value
  modulo \<open>2 ^ 32\<close>, converting an \<open>int\<close> to a \<open>long\<close> keeps the value; \<open>scast\<close> is both.
\<close>

type_synonym cpp_long = "64 word"

text \<open>
  A C++ \<open>double\<close> as far as \<open>handleChangedPropertyType\<close> looks at it: the function only
  compares the restored value with \<open>0.0\<close> and stores it or the constant \<open>1.0\<close>, it does no
  arithmetic. So a value is a finite number, an infinity or a NaN, and \<open>double_less\<close> is the
  IEEE comparison \<open><\<close>, false whenever an operand is a NaN.
\<close>

datatype double = Fin real | PInf | NInf | NaN

fun double_less :: "double \<Rightarrow> double \<Rightarrow> bool" where
  "double_less NaN b = False"
| "double_less a NaN = False"
| "double_less a NInf = False"
| "double_less NInf b = True"
| "double_less PInf b = False"
| "double_less (Fin a) PInf = True"
| "double_less (Fin a) (Fin b) = (a < b)"

text \<open>The properties of a page that the constructor adds; \<open>prop == &Scale\<close> compares
  addresses, which the model reads as equality of these names.\<close>

datatype Property =
  Prop_KeepUpdated | Prop_Template | Prop_Views | Prop_ProjectionType
  | Prop_Scale | Prop_NextBalloonIndex

text \<open>
  The state of a page: the values of its properties and its two flags. The links
  \<open>Template\<close> and \<open>Views\<close> point to other document objects and are left out; neither of the
  two functions below reads or writes them. \<open>NextBalloonIndex\<close> holds a \<open>long\<close>.
\<close>

record DrawPage =
  KeepUpdated :: bool
  ProjectionType :: int
  Scale :: double
  NextBalloonIndex :: cpp_long
  nowUnsetting :: bool
  balloonPlacing :: bool

text \<open>
  \<open>DrawPage::getNextBalloonIndex\<close>: the value returned and the page afterwards.
  \<open>int result = NextBalloonIndex.getValue()\<close> narrows the stored \<open>long\<close> to an \<open>int\<close>,
  \<open>result + 1\<close> is an addition of \<open>int\<close>s, and \<open>setValue(newValue)\<close> widens the \<open>int\<close> again.
\<close>

definition getNextBalloonIndex :: "DrawPage \<Rightarrow> cpp_int \<times> DrawPage" where
  "getNextBalloonIndex page =
     (let result = (scast (NextBalloonIndex page) :: cpp_int);
          newValue = result + 1
      in (result, page\<lparr>NextBalloonIndex := scast newValue\<rparr>))"

text \<open>\<open>n\<close> calls one after the other: the values returned, in order, and the last page.\<close>

fun getNextBalloonIndex_calls :: "nat \<Rightarrow> DrawPage \<Rightarrow> cpp_int list \<times> DrawPage" where
  "getNextBalloonIndex_calls 0 page = ([], page)"
| "getNextBalloonIndex_calls (Suc n) page =
     (case getNextBalloonIndex page of
        (result, page') \<Rightarrow>
          (case getNextBalloonIndex_calls n page' of
             (results, page'') \<Rightarrow> (result # results, page'')))"

text \<open>
  The reader's part in \<open>handleChangedPropertyType\<close>: \<open>tmp.Restore(reader)\<close> followed by
  \<open>tmp.getValue()\<close> yields the number the old document stored for the property.
\<close>

record XMLReader =
  restoredFloat :: double

text \<open>The name \<open>tmp.getTypeId().getName()\<close> gives for an \<open>App::PropertyFloat\<close>.\<close>

definition PropertyFloat_TypeName :: string where
  "PropertyFloat_TypeName = ''App::PropertyFloat''"

text \<open>
  \<open>DrawPage::handleChangedPropertyType\<close>. \<open>Scale.setValue\<close> stores its argument. The branch
  for a Scale that is not a Float only writes a log line and leaves the page as it is.
\<close>

definition handleChangedPropertyType ::
  "XMLReader \<Rightarrow> string \<Rightarrow> Property \<Rightarrow> DrawPage \<Rightarrow> DrawPage" where
  "handleChangedPropertyType reader TypeName prop page =
     (if prop = Prop_Scale then
        (if PropertyFloat_TypeName = TypeName then
           (let tmpValue = restoredFloat reader
            in if double_less (Fin 0) tmpValue
               then page\<lparr>Scale := tmpValue\<rparr>
               else page\<lparr>Scale := Fin 1\<rparr>)
         else page)
      else page)"

text \<open>Pages and readers for the concrete runs below.\<close>

definition page_at :: "cpp_long \<Rightarrow> DrawPage" where
  "page_at k = \<lparr>KeepUpdated = True, ProjectionType = 0, Scale = Fin 1,
     NextBalloonIndex = k, nowUnsetting = False, balloonPlacing = False\<rparr>"

definition reader_of :: "double \<Rightarrow> XMLReader" where
  "reader_of d = \<lparr>restoredFloat = d\<rparr>"


section \<open>Fem::Constraint: the widget geometry of getPoints\<close>

text \<open>
  FemConstraint.h declares \<open>getPoints\<close>, \<open>getCylinder\<close> and the three overloads of
  \<open>calcDrawScaleFactor\<close> and documents them; their bodies are in FemConstraint.cpp, which
  is not among the sources. This section writes the sampler down from the specification
  (its sections 3, 4, 6 and 7) and from the doc comments of the header. Parameters,
  lengths and coordinates are real numbers here; what is proved below is about the shape
  of the output and does not depend on rounding.
\<close>

text \<open>Modelled from the spec: \<open>Base::Vector3d\<close>, a point or a direction in space, with the
  two operations the cylinder's base point and layout need.\<close>

datatype Vector3d = Vector3d real real real

fun vec_add :: "Vector3d \<Rightarrow> Vector3d \<Rightarrow> Vector3d" where
  "vec_add (Vector3d a b c) (Vector3d d e f) = Vector3d (a + d) (b + e) (c + f)"

fun vec_scale :: "real \<Rightarrow> Vector3d \<Rightarrow> Vector3d" where
  "vec_scale k (Vector3d a b c) = Vector3d (k * a) (k * b) (k * c)"

text \<open>
  Modelled from the spec: the handles of the shape-resolution service (section 6), which
  the sampler does not own: a vertex point, an edge curve with its parametric range, a
  face surface with its parametric range and its point and normal evaluators, and the
  answer for a reference that names no vertex, edge or face. An evaluator that fails at
  a parameter returns \<open>None\<close>. The surface kind is the answer of the
  surface-classification query: for a cylinder its radius, the location of its axis and
  the direction of its axis.
\<close>

record EdgeHandle =
  edgeFirst :: real
  edgeLast :: real
  edgeValue :: "real \<Rightarrow> Vector3d option"

datatype Surface = Plane | Cylinder real Vector3d Vector3d | OtherSurface

record FaceHandle =
  faceSurface :: Surface
  faceUFirst :: real
  faceULast :: real
  faceVFirst :: real
  faceVLast :: real
  faceValue :: "real \<Rightarrow> real \<Rightarrow> Vector3d option"
  faceNormal :: "real \<Rightarrow> real \<Rightarrow> Vector3d option"

datatype SubElement = Vertex Vector3d | Edge EdgeHandle | Face FaceHandle | Unsupported

text \<open>
  Modelled from the spec: what section 4 calls implementation constants and an empirical
  tuning table, none of which the specification gives: the edge threshold and step size,
  the number of grid steps chosen for a face of given spans, and the one-argument and
  two-argument overloads of \<open>calcDrawScaleFactor\<close>. They are parameters of the sampler.
\<close>

record Tuning =
  edgeThreshold :: real
  edgeStep :: real
  faceSteps :: "real \<Rightarrow> real \<Rightarrow> nat \<times> nat"
  calcDrawScaleFactor1 :: "real \<Rightarrow> int"
  calcDrawScaleFactor2 :: "real \<Rightarrow> real \<Rightarrow> int"

text \<open>Modelled from the spec: the zero-argument overload of \<open>calcDrawScaleFactor\<close>
  (section 4.3, and the header: "always the integer 1").\<close>

definition calcDrawScaleFactor0 :: int where
  "calcDrawScaleFactor0 = 1"

text \<open>
  Modelled from the spec: \<open>getCylinder\<close> (section 4.2). For a cylindrical surface it gives
  the radius, the height as the extent of the face's parametric bounds along the axis,
  the base as the axis point at the lower bound, and the axis direction; for any other
  surface it gives nothing.
\<close>

record CylinderDescriptor =
  radius :: real
  height :: real
  base :: Vector3d
  axis :: Vector3d

definition getCylinder :: "FaceHandle \<Rightarrow> CylinderDescriptor option" where
  "getCylinder f =
     (case faceSurface f of
        Cylinder r location direction \<Rightarrow>
          Some \<lparr>radius = r, height = faceVLast f - faceVFirst f,
                base = vec_add location (vec_scale (faceVFirst f) direction),
                axis = direction\<rparr>
      | Plane \<Rightarrow> None
      | OtherSurface \<Rightarrow> None)"

text \<open>Modelled from the spec: the outputs of \<open>getPoints\<close>: the two parallel sequences, the
  running scale value and the success flag.\<close>

record Samples =
  points :: "Vector3d list"
  normals :: "Vector3d list"
  scale :: int
  ok :: bool

text \<open>A place where a widget may go: the evaluation of its point and of its normal.\<close>

type_synonym site = "Vector3d option \<times> Vector3d option"

text \<open>
  Modelled from the spec: the parameters at which an edge is sampled (section 4.1): its
  two ends, and for a parametric length above the threshold the parameters in between,
  one step size apart.
\<close>

definition edgeParameters :: "Tuning \<Rightarrow> real \<Rightarrow> real \<Rightarrow> real list" where
  "edgeParameters tun fp lp =
     (if edgeThreshold tun < lp - fp
      then fp # map (\<lambda>i. fp + real i * edgeStep tun)
                  [1..<Suc (nat (\<lceil>(lp - fp) / edgeStep tun\<rceil> - 1))] @ [lp]
      else [fp, lp])"

text \<open>Modelled from the spec: on an edge every normal is the default normal.\<close>

definition edgeSites :: "Tuning \<Rightarrow> Vector3d \<Rightarrow> EdgeHandle \<Rightarrow> site list" where
  "edgeSites tun defaultNormal e =
     map (\<lambda>t. (edgeValue e t, Some defaultNormal))
       (edgeParameters tun (edgeFirst e) (edgeLast e))"

text \<open>
  Modelled from the spec: the grid over the parameter domain of a face, with the face's
  own normal at each grid point.
\<close>

definition gridSites :: "Tuning \<Rightarrow> FaceHandle \<Rightarrow> site list" where
  "gridSites tun f =
     (case faceSteps tun (faceULast f - faceUFirst f) (faceVLast f - faceVFirst f) of
        (nu, nv) \<Rightarrow>
          concat (map (\<lambda>i. map (\<lambda>j.
              (faceValue f (faceUFirst f + real i * ((faceULast f - faceUFirst f) / real nu))
                           (faceVFirst f + real j * ((faceVLast f - faceVFirst f) / real nv)),
               faceNormal f (faceUFirst f + real i * ((faceULast f - faceUFirst f) / real nu))
                            (faceVFirst f + real j * ((faceVLast f - faceVFirst f) / real nv))))
            [0..<Suc nv]) [0..<Suc nu]))"

text \<open>
  Modelled from the spec: the layout for a cylindrical face: the base point, and the
  point along the axis direction at the cylinder's height. The specification does not
  say which normals go with them; following the header ("for each point of a face ... the
  normal vector of the face at that position") they are the face's normals at the two
  ends of its range along the axis.
\<close>

definition cylinderSites :: "FaceHandle \<Rightarrow> CylinderDescriptor \<Rightarrow> site list" where
  "cylinderSites f c =
     [(Some (base c), faceNormal f (faceUFirst f) (faceVFirst f)),
      (Some (vec_add (base c) (vec_scale (height c) (axis c))),
       faceNormal f (faceUFirst f) (faceVLast f))]"

text \<open>
  Modelled from the spec: the loop over the sites of one reference. A point and its
  normal are pushed onto the two sequences together; at the first evaluation that fails
  the loop stops and reports the failure, and what was pushed before stays (section 7:
  no rollback).
\<close>

fun sampleSites :: "site list \<Rightarrow> Samples \<Rightarrow> Samples \<times> bool" where
  "sampleSites [] st = (st, True)"
| "sampleSites ((None, n) # sites) st = (st, False)"
| "sampleSites ((Some p, None) # sites) st = (st, False)"
| "sampleSites ((Some p, Some n) # sites) st =
     sampleSites sites (st\<lparr>points := points st @ [p], normals := normals st @ [n]\<rparr>)"

text \<open>Modelled from the spec: a reference that was sampled overwrites the scale; one that
  failed clears the flag and leaves the scale as it was.\<close>

definition finishReference :: "int \<Rightarrow> Samples \<times> bool \<Rightarrow> Samples" where
  "finishReference s r =
     (case r of (st, True) \<Rightarrow> st\<lparr>scale := s\<rparr> | (st, False) \<Rightarrow> st\<lparr>ok := False\<rparr>)"

text \<open>
  Modelled from the spec: what \<open>getPoints\<close> does for one reference (section 4.1), by the
  kind of the subelement. An unsupported subelement, an edge of length zero and a face
  of area zero emit nothing and clear the flag.
\<close>

definition processReference ::
  "Tuning \<Rightarrow> Vector3d \<Rightarrow> Samples \<Rightarrow> SubElement \<Rightarrow> Samples" where
  "processReference tun defaultNormal st ref =
     (case ref of
        Vertex p \<Rightarrow>
          st\<lparr>points := points st @ [p], normals := normals st @ [defaultNormal],
             scale := calcDrawScaleFactor0\<rparr>
      | Edge e \<Rightarrow>
          (if edgeLast e - edgeFirst e = 0 then st\<lparr>ok := False\<rparr>
           else finishReference (calcDrawScaleFactor1 tun (edgeLast e - edgeFirst e))
                  (sampleSites (edgeSites tun defaultNormal e) st))
      | Face f \<Rightarrow>
          (if (faceULast f - faceUFirst f) * (faceVLast f - faceVFirst f) = 0
           then st\<lparr>ok := False\<rparr>
           else finishReference
                  (calcDrawScaleFactor2 tun
                     (faceULast f - faceUFirst f) (faceVLast f - faceVFirst f))
                  (case getCylinder f of
                     Some c \<Rightarrow> sampleSites (cylinderSites f c) st
                   | None \<Rightarrow> sampleSites (gridSites tun f) st))
      | Unsupported \<Rightarrow> st\<lparr>ok := False\<rparr>)"

text \<open>
  Modelled from the spec: \<open>getPoints\<close>, the loop over the references in their order. The
  sequences start empty and the flag set; \<open>scale0\<close> is what the caller's \<open>scale\<close> held
  before the call (the header passes it as \<open>int *\<close>). The loop goes on after a reference
  that failed.
\<close>

definition getPoints :: "Tuning \<Rightarrow> Vector3d \<Rightarrow> int \<Rightarrow> SubElement list \<Rightarrow> Samples" where
  "getPoints tun defaultNormal scale0 references =
     foldl (processReference tun defaultNormal)
       \<lparr>points = [], normals = [], scale = scale0, ok = True\<rparr> references"

text \<open>
  The specification's own data model (section 3) speaks of sample points: a point
  together with its normal. The next three definitions say, in these words, which sample
  points a reference list stands for: those of each reference in turn, and for one
  reference its sites up to the first that fails to evaluate.
\<close>

fun sitePairs :: "site list \<Rightarrow> (Vector3d \<times> Vector3d) list" where
  "sitePairs [] = []"
| "sitePairs ((Some p, Some n) # sites) = (p, n) # sitePairs sites"
| "sitePairs (s # sites) = []"

definition referencePairs ::
  "Tuning \<Rightarrow> Vector3d \<Rightarrow> SubElement \<Rightarrow> (Vector3d \<times> Vector3d) list" where
  "referencePairs tun defaultNormal ref =
     (case ref of
        Vertex p \<Rightarrow> [(p, defaultNormal)]
      | Edge e \<Rightarrow>
          (if edgeLast e - edgeFirst e = 0 then []
           else sitePairs (edgeSites tun defaultNormal e))
      | Face f \<Rightarrow>
          (if (faceULast f - faceUFirst f) * (faceVLast f - faceVFirst f) = 0 then []
           else (case getCylinder f of
                   Some c \<Rightarrow> sitePairs (cylinderSites f c)
                 | None \<Rightarrow> sitePairs (gridSites tun f)))
      | Unsupported \<Rightarrow> [])"

definition samplePoints ::
  "Tuning \<Rightarrow> Vector3d \<Rightarrow> SubElement list \<Rightarrow> (Vector3d \<times> Vector3d) list" where
  "samplePoints tun defaultNormal references =
     concat (map (referencePairs tun defaultNormal) references)"

text \<open>Inputs for the concrete run below: tuning values, a straight edge of parametric
  length 5 and one of length 45.\<close>

definition tuning_example :: Tuning where
  "tuning_example = \<lparr>edgeThreshold = 20, edgeStep = 10, faceSteps = (\<lambda>u v. (2, 2)),
     calcDrawScaleFactor1 = (\<lambda>l. 3), calcDrawScaleFactor2 = (\<lambda>u v. 4)\<rparr>"

definition line_example :: "real \<Rightarrow> EdgeHandle" where
  "line_example l = \<lparr>edgeFirst = 0, edgeLast = l, edgeValue = (\<lambda>t. Some (Vector3d t 0 0))\<rparr>"


section \<open>Results for DrawPage\<close>

lemma sint_succ:
  fixes x :: cpp_int
  assumes "sint x < 2147483647"
  shows "sint (x + 1) = sint x + 1"
proof -
  have lo: "- (2 ^ 31) \<le> sint x"
    using sint_ge [of x] by simp
  have "sint (x + 1) = signed_take_bit 31 (sint x + 1)"
    by (simp add: sint_word_add)
  also have "\<dots> = sint x + 1"
    by (rule signed_take_bit_int_eq_self) (use assms lo in simp_all)
  finally show ?thesis .
qed

lemma map_upt_Suc_shift: "map f [0..<Suc n] = f 0 # map (\<lambda>i. f (Suc i)) [0..<n]"
proof -
  have "[0..<Suc n] = 0 # map Suc [0..<n]"
    by (simp only: map_Suc_upt upt_conv_Cons [of 0 "Suc n"] zero_less_Suc if_True)
  then show ?thesis
    by (simp only: list.map map_map o_def)
qed

lemma sint_narrow:
  fixes k :: cpp_long
  assumes "- 2147483648 \<le> sint k" and "sint k \<le> 2147483647"
  shows "sint (scast k :: cpp_int) = sint k"
proof -
  have "sint (scast k :: cpp_int) = signed_take_bit 31 (sint k)"
    by (simp only: scast_eq sint_sbintrunc') simp
  also have "\<dots> = sint k"
    by (rule signed_take_bit_int_eq_self) (use assms in simp_all)
  finally show ?thesis .
qed

lemma sint_widen:
  fixes w :: cpp_int
  shows "sint (scast w :: cpp_long) = sint w"
  by (rule sint_up_scast) (simp add: is_up)

lemma getNextBalloonIndex_fst:
  "fst (getNextBalloonIndex page) = scast (NextBalloonIndex page)"
  by (simp add: getNextBalloonIndex_def Let_def)

lemma getNextBalloonIndex_snd:
  "snd (getNextBalloonIndex page) =
     page\<lparr>NextBalloonIndex := scast ((scast (NextBalloonIndex page) :: cpp_int) + 1)\<rparr>"
  by (simp add: getNextBalloonIndex_def Let_def)

lemma getNextBalloonIndex_in_range:
  assumes "- 2147483648 \<le> sint (NextBalloonIndex page)"
    and "sint (NextBalloonIndex page) < 2147483647"
  shows "sint (fst (getNextBalloonIndex page)) = sint (NextBalloonIndex page)"
    and "sint (NextBalloonIndex (snd (getNextBalloonIndex page))) =
           sint (NextBalloonIndex page) + 1"
proof -
  let ?k = "NextBalloonIndex page"
  have n: "sint (scast ?k :: cpp_int) = sint ?k"
    by (rule sint_narrow) (use assms in simp_all)
  show "sint (fst (getNextBalloonIndex page)) = sint ?k"
    by (simp only: getNextBalloonIndex_fst n)
  have "sint ((scast ?k :: cpp_int) + 1) = sint (scast ?k :: cpp_int) + 1"
    by (rule sint_succ) (use assms n in simp)
  then show "sint (NextBalloonIndex (snd (getNextBalloonIndex page))) = sint ?k + 1"
    by (simp add: getNextBalloonIndex_snd sint_widen n)
qed

lemma getNextBalloonIndex_calls_in_range:
  "- 2147483648 \<le> sint (NextBalloonIndex page) \<Longrightarrow>
   sint (NextBalloonIndex page) + int n \<le> 2147483647 \<Longrightarrow>
   map sint (fst (getNextBalloonIndex_calls n page)) =
     map (\<lambda>i. sint (NextBalloonIndex page) + int i) [0..<n]
   \<and> sint (NextBalloonIndex (snd (getNextBalloonIndex_calls n page))) =
       sint (NextBalloonIndex page) + int n"
proof (induction n arbitrary: page)
  case 0
  show ?case by simp
next
  case (Suc n)
  let ?k = "NextBalloonIndex page"
  let ?p = "snd (getNextBalloonIndex page)"
  have lt: "sint ?k < 2147483647"
    using Suc.prems(2) by simp
  have r: "sint (fst (getNextBalloonIndex page)) = sint ?k"
    and s: "sint (NextBalloonIndex ?p) = sint ?k + 1"
    using getNextBalloonIndex_in_range [OF Suc.prems(1) lt] by simp_all
  have ih: "map sint (fst (getNextBalloonIndex_calls n ?p)) =
       map (\<lambda>i. sint (NextBalloonIndex ?p) + int i) [0..<n]
     \<and> sint (NextBalloonIndex (snd (getNextBalloonIndex_calls n ?p))) =
       sint (NextBalloonIndex ?p) + int n"
    by (rule Suc.IH) (use Suc.prems s in simp_all)
  have unfold: "getNextBalloonIndex_calls (Suc n) page =
      (fst (getNextBalloonIndex page) # fst (getNextBalloonIndex_calls n ?p),
       snd (getNextBalloonIndex_calls n ?p))"
    by (simp add: split_beta)
  have shift: "\<And>i::nat. sint ?k + 1 + int i = sint ?k + int (Suc i)"
    by simp
  show ?case
    by (simp only: unfold fst_conv snd_conv list.map r ih s map_upt_Suc_shift shift)
       simp
qed

lemma getNextBalloonIndex_calls_frame:
  "snd (getNextBalloonIndex_calls n page) =
     page\<lparr>NextBalloonIndex := NextBalloonIndex (snd (getNextBalloonIndex_calls n page))\<rparr>"
proof (induction n arbitrary: page)
  case 0
  show ?case by simp
next
  case (Suc n)
  let ?p = "snd (getNextBalloonIndex page)"
  have "snd (getNextBalloonIndex_calls (Suc n) page) = snd (getNextBalloonIndex_calls n ?p)"
    by (simp add: split_beta)
  moreover have "snd (getNextBalloonIndex_calls n ?p) =
      ?p\<lparr>NextBalloonIndex := NextBalloonIndex (snd (getNextBalloonIndex_calls n ?p))\<rparr>"
    by (rule Suc.IH)
  ultimately show ?case
    by (simp add: getNextBalloonIndex_snd)
qed

text \<open>
  C9, as the claim states it: every call returns the current value of the property and
  leaves the property one above it. At a stored 2147483647, the largest \<open>int\<close>, the call
  returns 2147483647, but \<open>result + 1\<close> is not 2147483648: the property holds
  \<open>- 2147483648\<close> afterwards. And at a stored 4294967301, a value of the property outside
  the range of \<open>int\<close>, the call returns 5 and leaves the property at 6.
\<close>

theorem getNextBalloonIndex_int_max_counterexample:
  "sint (fst (getNextBalloonIndex (page_at 2147483647))) = 2147483647
   \<and> sint (NextBalloonIndex (snd (getNextBalloonIndex (page_at 2147483647))))
       \<noteq> sint (NextBalloonIndex (page_at 2147483647)) + 1
   \<and> sint (NextBalloonIndex (snd (getNextBalloonIndex (page_at 2147483647)))) = - 2147483648
   \<and> sint (NextBalloonIndex (page_at 4294967301)) = 4294967301
   \<and> sint (fst (getNextBalloonIndex (page_at 4294967301))) = 5
   \<and> sint (NextBalloonIndex (snd (getNextBalloonIndex (page_at 4294967301)))) = 6"
  by (simp add: getNextBalloonIndex_def page_at_def)

text \<open>
  C9, amended: for a stored \<open>NextBalloonIndex\<close> \<open>k\<close> within the range of \<open>int\<close> and as long
  as the index stays there, that is \<open>- 2147483648 \<le> k\<close> and \<open>k + n \<le> 2147483647\<close>, a call to
  \<open>getNextBalloonIndex\<close> returns \<open>k\<close>, and \<open>n\<close> successive calls return
  \<open>k, k + 1, ..., k + n - 1\<close> and leave the property at \<open>k + n\<close>; no other part of the page
  changes.
\<close>

theorem getNextBalloonIndex_successive:
  assumes "- 2147483648 \<le> sint (NextBalloonIndex page)"
    and "sint (NextBalloonIndex page) + int n \<le> 2147483647"
  shows "sint (fst (getNextBalloonIndex page)) = sint (NextBalloonIndex page)
    \<and> map sint (fst (getNextBalloonIndex_calls n page)) =
        map (\<lambda>i. sint (NextBalloonIndex page) + int i) [0..<n]
    \<and> sint (NextBalloonIndex (snd (getNextBalloonIndex_calls n page))) =
        sint (NextBalloonIndex page) + int n
    \<and> snd (getNextBalloonIndex_calls n page) =
        page\<lparr>NextBalloonIndex := NextBalloonIndex (snd (getNextBalloonIndex_calls n page))\<rparr>"
proof -
  have hi: "sint (NextBalloonIndex page) \<le> 2147483647"
    using assms(2) by simp
  have "sint (fst (getNextBalloonIndex page)) = sint (NextBalloonIndex page)"
    by (simp only: getNextBalloonIndex_fst sint_narrow [OF assms(1) hi])
  moreover note getNextBalloonIndex_calls_in_range [OF assms]
  moreover note getNextBalloonIndex_calls_frame [of n page]
  ultimately show ?thesis by blast
qed

theorem getNextBalloonIndex_successive_witness:
  "- 2147483648 \<le> sint (NextBalloonIndex (page_at 5))
   \<and> sint (NextBalloonIndex (page_at 5)) + int 3 \<le> 2147483647
   \<and> sint (fst (getNextBalloonIndex (page_at 5))) = 5
   \<and> map sint (fst (getNextBalloonIndex_calls 3 (page_at 5))) = [5, 6, 7]
   \<and> sint (NextBalloonIndex (snd (getNextBalloonIndex_calls 3 (page_at 5)))) = 8"
proof -
  have lo: "- 2147483648 \<le> sint (NextBalloonIndex (page_at 5))"
    by (simp add: page_at_def)
  have hi: "sint (NextBalloonIndex (page_at 5)) + int 3 \<le> 2147483647"
    by (simp add: page_at_def)
  show ?thesis
    using lo hi getNextBalloonIndex_successive [OF lo hi]
    by (simp add: page_at_def upt_rec)
qed

text \<open>
  C10: when \<open>handleChangedPropertyType\<close> is called for the Scale property and the type
  name of the old plain Float, a restored value that is strictly positive is kept, every
  other restored value (zero, negative, and a NaN as well) is replaced by 1.0, and the
  page's Scale is strictly positive afterwards.
\<close>

theorem handleChangedPropertyType_Scale_positive:
  assumes "prop = Prop_Scale" and "TypeName = PropertyFloat_TypeName"
  shows "Scale (handleChangedPropertyType reader TypeName prop page) =
           (if double_less (Fin 0) (restoredFloat reader) then restoredFloat reader else Fin 1)
    \<and> double_less (Fin 0) (Scale (handleChangedPropertyType reader TypeName prop page))"
  using assms by (simp add: handleChangedPropertyType_def Let_def)

theorem handleChangedPropertyType_Scale_positive_witness:
  "Scale (handleChangedPropertyType (reader_of (Fin (- 2))) ''App::PropertyFloat''
      Prop_Scale (page_at 1)) = Fin 1
   \<and> Scale (handleChangedPropertyType (reader_of (Fin (1 / 4))) ''App::PropertyFloat''
      Prop_Scale (page_at 1)) = Fin (1 / 4)
   \<and> Scale (handleChangedPropertyType (reader_of NaN) ''App::PropertyFloat''
      Prop_Scale (page_at 1)) = Fin 1"
  using
    handleChangedPropertyType_Scale_positive
      [of Prop_Scale "''App::PropertyFloat''" "reader_of (Fin (- 2))" "page_at 1"]
    handleChangedPropertyType_Scale_positive
      [of Prop_Scale "''App::PropertyFloat''" "reader_of (Fin (1 / 4))" "page_at 1"]
    handleChangedPropertyType_Scale_positive
      [of Prop_Scale "''App::PropertyFloat''" "reader_of NaN" "page_at 1"]
  by (simp add: PropertyFloat_TypeName_def reader_of_def)

section \<open>Results for getPoints\<close>

text \<open>The loop over the sites of a reference appends to each sequence its half of the
  reference's sample points, whether it ends in success or in failure.\<close>

lemma sampleSites_points:
  "points (fst (sampleSites sites st)) = points st @ map fst (sitePairs sites)"
  by (induction sites st rule: sampleSites.induct) simp_all

lemma sampleSites_normals:
  "normals (fst (sampleSites sites st)) = normals st @ map snd (sitePairs sites)"
  by (induction sites st rule: sampleSites.induct) simp_all

lemma finishReference_points: "points (finishReference s r) = points (fst r)"
  by (cases r) (simp add: finishReference_def split: bool.splits)

lemma finishReference_normals: "normals (finishReference s r) = normals (fst r)"
  by (cases r) (simp add: finishReference_def split: bool.splits)

lemma processReference_points:
  "points (processReference tun dn st ref) = points st @ map fst (referencePairs tun dn ref)"
  by (cases ref)
     (simp_all add: processReference_def referencePairs_def finishReference_points
        sampleSites_points split: option.splits)

lemma processReference_normals:
  "normals (processReference tun dn st ref) =
     normals st @ map snd (referencePairs tun dn ref)"
  by (cases ref)
     (simp_all add: processReference_def referencePairs_def finishReference_normals
        sampleSites_normals split: option.splits)

text \<open>The invariant of the loop over the references, from any state.\<close>

lemma foldl_processReference_points:
  "points (foldl (processReference tun dn) st refs) =
     points st @ map fst (concat (map (referencePairs tun dn) refs))"
  by (induction refs arbitrary: st) (simp_all add: processReference_points)

lemma foldl_processReference_normals:
  "normals (foldl (processReference tun dn) st refs) =
     normals st @ map snd (concat (map (referencePairs tun dn) refs))"
  by (induction refs arbitrary: st) (simp_all add: processReference_normals)

text \<open>
  C1: for every reference list, every default normal and every tuning, and whether the
  flag ends set or cleared, the points and the normals that \<open>getPoints\<close> returns have the
  same length, and taken index by index they are the sample points of the reference list:
  \<open>normals[i]\<close> is the normal of the sample point whose point is \<open>points[i]\<close>.
\<close>

theorem getPoints_points_normals_parallel:
  "length (points (getPoints tun dn s0 refs)) = length (normals (getPoints tun dn s0 refs))
   \<and> zip (points (getPoints tun dn s0 refs)) (normals (getPoints tun dn s0 refs)) =
       samplePoints tun dn refs"
  by (simp add: getPoints_def samplePoints_def foldl_processReference_points
        foldl_processReference_normals zip_map_fst_snd)

text \<open>A run on a vertex, an edge of parametric length 5 (below the threshold of the
  example tuning) and an unsupported reference: three sample points, and the flag
  cleared.\<close>

theorem getPoints_points_normals_parallel_witness:
  "length (points (getPoints tuning_example (Vector3d 0 0 1) 7
       [Vertex (Vector3d 1 2 3), Edge (line_example 5), Unsupported])) =
   length (normals (getPoints tuning_example (Vector3d 0 0 1) 7
       [Vertex (Vector3d 1 2 3), Edge (line_example 5), Unsupported]))
   \<and> zip (points (getPoints tuning_example (Vector3d 0 0 1) 7
            [Vertex (Vector3d 1 2 3), Edge (line_example 5), Unsupported]))
          (normals (getPoints tuning_example (Vector3d 0 0 1) 7
            [Vertex (Vector3d 1 2 3), Edge (line_example 5), Unsupported])) =
       [(Vector3d 1 2 3, Vector3d 0 0 1), (Vector3d 0 0 0, Vector3d 0 0 1),
        (Vector3d 5 0 0, Vector3d 0 0 1)]
   \<and> \<not> ok (getPoints tuning_example (Vector3d 0 0 1) 7
            [Vertex (Vector3d 1 2 3), Edge (line_example 5), Unsupported])"
proof -
  have pairs: "samplePoints tuning_example (Vector3d 0 0 1)
      [Vertex (Vector3d 1 2 3), Edge (line_example 5), Unsupported] =
      [(Vector3d 1 2 3, Vector3d 0 0 1), (Vector3d 0 0 0, Vector3d 0 0 1),
       (Vector3d 5 0 0, Vector3d 0 0 1)]"
    by (simp add: samplePoints_def referencePairs_def edgeSites_def edgeParameters_def
          tuning_example_def line_example_def)
  have flag: "\<not> ok (getPoints tuning_example (Vector3d 0 0 1) 7
      [Vertex (Vector3d 1 2 3), Edge (line_example 5), Unsupported])"
    by (simp add: getPoints_def processReference_def finishReference_def edgeSites_def
          edgeParameters_def tuning_example_def line_example_def)
  show ?thesis
    using getPoints_points_normals_parallel
      [of tuning_example "Vector3d 0 0 1" 7
          "[Vertex (Vector3d 1 2 3), Edge (line_example 5), Unsupported]"]
    by (simp only: pairs flag simp_thms)
qed

end
